theory Spec2Isabelle
  imports Complex_Main "HOL-Library.AList" "HOL-Library.Multiset"
begin

section \<open>The shared session state of \<open>run_live\<close>\<close>

text \<open>
  \<open>run_live\<close> (src/kick_live_cli.py, lines 181-192) keeps its shared data in local
  variables that the nested coroutines close over. The model threads them through as one
  record. Times come from \<open>time.time()\<close>; they are modelled as exact reals, so the
  rounding of floating-point subtraction is abstracted away. Python integers are \<open>int\<close>.
  The type \<open>'u\<close> is the type of actor ids, the hashable values that serve as user names.
  The dictionary \<open>user_counts\<close> is an association list in insertion order, which is the
  order Python's \<open>dict.items()\<close> iterates in; the deque \<open>events\<close> is a list whose head
  is the left end.
\<close>

type_synonym 'u event = "real \<times> 'u"

record 'u session =
  events :: "'u event list"
  unique_users :: "'u set"
  user_counts :: "('u \<times> int) list"
  total_messages :: int
  current_viewers :: "int option"
  last_message_time :: real

definition init_session :: "int option \<Rightarrow> real \<Rightarrow> 'u session" where
  "init_session viewer_count start_time =
     \<lparr>events = [], unique_users = {}, user_counts = [], total_messages = 0,
      current_viewers = viewer_count, last_message_time = start_time\<rparr>"

subsection \<open>Recording a message (\<open>listen\<close>, lines 394-399)\<close>

text \<open>\<open>user_counts.get(username, 0)\<close>.\<close>

definition get_count :: "('u \<times> int) list \<Rightarrow> 'u \<Rightarrow> int" where
  "get_count counts username = (case map_of counts username of None \<Rightarrow> 0 | Some c \<Rightarrow> c)"

text \<open>
  The body of the \<open>async with lock\<close> block of \<open>listen\<close>. \<open>AList.update\<close> overwrites the
  value of a key that is present, in place, and appends a new key at the end, as an
  assignment to a Python dictionary does.
\<close>

definition record_message :: "real \<Rightarrow> 'u \<Rightarrow> 'u session \<Rightarrow> 'u session" where
  "record_message now username s =
     s\<lparr>events := events s @ [(now, username)],
       total_messages := total_messages s + 1,
       unique_users := insert username (unique_users s),
       user_counts := AList.update username (get_count (user_counts s) username + 1) (user_counts s),
       last_message_time := now\<rparr>"

subsection \<open>The aggregator query (\<open>stats_loop\<close>, lines 239-251)\<close>

text \<open>\<open>while events and events[0][0] < now - 60: events.popleft()\<close>\<close>

fun evict :: "real \<Rightarrow> 'u event list \<Rightarrow> 'u event list" where
  "evict now [] = []"
| "evict now ((t, u) # es) = (if t < now - 60 then evict now es else (t, u) # es)"

text \<open>
  \<open>sorted(user_counts.items(), key=lambda kv: kv[1], reverse=True)[:3]\<close>. Python's sort is
  stable, and with \<open>reverse=True\<close> it reverses the list, sorts it stably in ascending order
  and reverses the result; \<open>sort_key\<close> is a stable insertion sort.
\<close>

definition ranked :: "('u \<times> int) list \<Rightarrow> ('u \<times> int) list" where
  "ranked items = rev (sort_key snd (rev items))"

definition top_users :: "('u \<times> int) list \<Rightarrow> ('u \<times> int) list" where
  "top_users items = take 3 (ranked items)"

record 'u stats =
  per_min :: int
  per_sec :: int
  uniq_min :: int
  uniq_sec :: int
  msg_total :: int
  uniq_total :: int
  top :: "('u \<times> int) list"
  viewers :: "int option"
  last_msg :: real

text \<open>
  The body of the \<open>async with lock\<close> block of \<open>stats_loop\<close>: evict from the left, then read
  the statistics. It returns them with the state, whose deque has been shortened.
\<close>

definition query :: "real \<Rightarrow> 'u session \<Rightarrow> 'u stats \<times> 'u session" where
  "query now s =
     (let es = evict now (events s) in
      (\<lparr>per_min = int (length es),
        per_sec = int (length (filter (\<lambda>(t, u). t \<ge> now - 1) es)),
        uniq_min = int (card (set (map snd es))),
        uniq_sec = int (card (set (map snd (filter (\<lambda>(t, u). t \<ge> now - 1) es)))),
        msg_total = total_messages s,
        uniq_total = int (card (unique_users s)),
        top = top_users (user_counts s),
        viewers = current_viewers s,
        last_msg = last_message_time s\<rparr>,
       s\<lparr>events := es\<rparr>))"


subsection \<open>The states a session can reach\<close>

text \<open>
  The shared aggregator state starts as \<open>run_live\<close> initialises it and is changed only by
  the three critical sections: \<open>listen\<close> records a message, \<open>stats_loop\<close> evicts during a
  query, and \<open>poll_viewers\<close> stores the viewer count (or \<open>None\<close> after a failure).
\<close>

inductive reachable :: "'u session \<Rightarrow> bool" where
  start: "reachable (init_session viewer_count start_time)"
| recorded: "reachable s \<Longrightarrow> reachable (record_message now username s)"
| queried: "reachable s \<Longrightarrow> reachable (snd (query now s))"
| polled: "reachable s \<Longrightarrow> reachable (s\<lparr>current_viewers := v\<rparr>)"

text \<open>Recording a sequence of received messages, oldest first.\<close>

definition record_all :: "'u event list \<Rightarrow> 'u session \<Rightarrow> 'u session" where
  "record_all evs s = foldl (\<lambda>s (t, u). record_message t u s) s evs"

subsection \<open>Vocabulary of the statements about the aggregator\<close>

text \<open>What the counters of a reachable state never exceed.\<close>

definition totals_bound :: "'u session \<Rightarrow> bool" where
  "totals_bound s \<longleftrightarrow>
     finite (unique_users s) \<and>
     int (card (unique_users s)) \<le> total_messages s \<and>
     int (length (events s)) \<le> total_messages s"






section \<open>The feed listener (\<open>listen\<close>, lines 373-407)\<close>

text \<open>
  Exceptions are values. An exception that no handler of the source catches leaves the
  coroutine that raised it.
\<close>

datatype exn = AttributeError | TypeError | ValueError | IndexError | ProcessLookupError
  | OtherError

text \<open>
  What \<open>json.loads\<close> returns: \<open>None\<close>, booleans, numbers, strings, lists and
  dictionaries. A dictionary is an association list read from the left.
\<close>

datatype json = JNull | JBool bool | JNum real | JStr string | JArr "json list"
  | JObj "(string \<times> json) list"

text \<open>Python's truth value of such a value, and \<open>x or y\<close>.\<close>

fun truthy :: "json \<Rightarrow> bool" where
  "truthy JNull = False"
| "truthy (JBool b) = b"
| "truthy (JNum n) = (n \<noteq> 0)"
| "truthy (JStr s) = (s \<noteq> [])"
| "truthy (JArr xs) = (xs \<noteq> [])"
| "truthy (JObj kvs) = (kvs \<noteq> [])"

definition py_or :: "json \<Rightarrow> json \<Rightarrow> json" where
  "py_or x y = (if truthy x then x else y)"

text \<open>
  \<open>x.get(k)\<close>: the value at \<open>k\<close>, \<open>None\<close> for a key that is missing, and an
  \<open>AttributeError\<close> on anything that is not a dictionary.
\<close>

fun get :: "json \<Rightarrow> string \<Rightarrow> exn + json" where
  "get (JObj kvs) k = Inr (case map_of kvs k of None \<Rightarrow> JNull | Some v \<Rightarrow> v)"
| "get _ k = Inl AttributeError"

text \<open>The event name the listener filters for; its two separators are backslashes.\<close>

definition chat_message_event :: string where
  "chat_message_event = ''App'' @ [CHR 0x5C] @ ''Events'' @ [CHR 0x5C] @ ''ChatMessageEvent''"

text \<open>
  A user name is whatever JSON value stands in the field. It becomes a member of a set and
  a key of a dictionary, so it must be hashable: lists and dictionaries raise
  \<open>TypeError\<close>. Python compares \<open>True\<close> and \<open>1\<close>, and \<open>1\<close> and \<open>1.0\<close>, equal
  as keys.
\<close>

datatype actor = Name string | Number real | NoneKey

fun actor_of :: "json \<Rightarrow> exn + actor" where
  "actor_of (JStr s) = Inr (Name s)"
| "actor_of (JNum n) = Inr (Number n)"
| "actor_of (JBool b) = Inr (Number (if b then 1 else 0))"
| "actor_of JNull = Inr NoneKey"
| "actor_of (JArr xs) = Inl TypeError"
| "actor_of (JObj kvs) = Inl TypeError"

text \<open>
  The records of the session log that the listener and the start of a session write, each
  with its \<open>ts\<close> and \<open>channel\<close> fields first. (\<open>stats_loop\<close> writes snapshot records to
  the same file; they are not modelled.)
\<close>

datatype log_record =
    SessionStart string string int
  | MessageRecord string string json json

text \<open>
  Lines 390-407: the user name and content of a decoded message, the critical section, and
  the log record. \<open>now\<close> is \<open>time.time()\<close> and \<open>ts\<close> the formatted UTC time. When the
  user name is not hashable the exception is raised inside the critical section and leaves
  \<open>listen\<close>, which ends the session.
\<close>

definition handle_message ::
  "string \<Rightarrow> real \<Rightarrow> string \<Rightarrow> json \<Rightarrow> actor session \<times> log_record list \<Rightarrow>
   exn + actor session \<times> log_record list" where
  "handle_message channel now ts data st =
     (case get data ''sender'' of
        Inl e \<Rightarrow> Inl e
      | Inr sender \<Rightarrow>
          (case get (py_or sender (JObj [])) ''username'' of
             Inl e \<Rightarrow> Inl e
           | Inr name \<Rightarrow>
               (case get data ''content'' of
                  Inl e \<Rightarrow> Inl e
                | Inr c \<Rightarrow>
                    (let username = py_or name (JStr ''anon'');
                         content = py_or c (JStr [])
                     in case actor_of username of
                          Inl e \<Rightarrow> Inl e
                        | Inr a \<Rightarrow>
                            Inr (record_message now a (fst st),
                                 snd st @ [MessageRecord ts
                                   (if channel = [] then ''manual'' else channel)
                                   username content])))))"

text \<open>
  One iteration of the loop of \<open>listen\<close>. \<open>received\<close> is the frame that \<open>ws.recv()\<close>
  returned within its timeout, if any; \<open>loads\<close> is \<open>json.loads\<close>, with \<open>None\<close> for a
  \<open>JSONDecodeError\<close>. A result \<open>Inr\<close> with the state unchanged is a \<open>continue\<close>.
\<close>

definition listen_step ::
  "(string \<Rightarrow> json option) \<Rightarrow> string \<Rightarrow> real \<Rightarrow> string \<Rightarrow> string option \<Rightarrow>
   actor session \<times> log_record list \<Rightarrow> exn + actor session \<times> log_record list" where
  "listen_step loads channel now ts received st =
     (case received of
        None \<Rightarrow> Inr st
      | Some message \<Rightarrow>
          (case loads message of
             None \<Rightarrow> Inr st
           | Some payload \<Rightarrow>
               (case get payload ''event'' of
                  Inl e \<Rightarrow> Inl e
                | Inr ev \<Rightarrow>
                    if ev \<noteq> JStr chat_message_event then Inr st
                    else
                      (case get payload ''data'' of
                         Inl e \<Rightarrow> Inl e
                       | Inr d \<Rightarrow>
                           (case py_or d (JStr ''{}'') of
                              JStr text \<Rightarrow>
                                (case loads text of
                                   None \<Rightarrow> Inr st
                                 | Some data \<Rightarrow> handle_message channel now ts data st)
                            | _ \<Rightarrow> Inl TypeError)))))"

section \<open>The validated options of a session\<close>

text \<open>
  The locals that \<open>run_live\<close> computes from its arguments before it starts (lines 120-179)
  and that the coroutines read afterwards. \<open>channel\<close> is the empty string when no channel
  was given.
\<close>

record config =
  channel :: string
  chatroom_id :: int
  viewer_count :: "int option"
  log_path :: string
  screenshot_interval :: "int option"
  screenshot_on_snapshot :: bool
  screenshot_format :: string
  screenshot_max :: "int option"
  screenshot_embed :: bool
  screenshot_embed_width :: "int option"
  screenshot_dir :: "string option"
  stream_url :: "string option"
  ffmpeg_path :: "string option"
  duration :: "int option"
  inactivity :: "int option"

text \<open>Decimal digits of an integer, as an f-string prints it.\<close>

fun str_nat :: "nat \<Rightarrow> string" where
  "str_nat n =
     (if n < 10 then [''0123456789'' ! n]
      else str_nat (n div 10) @ [''0123456789'' ! (n mod 10)])"

declare str_nat.simps [simp del]

definition str_int :: "int \<Rightarrow> string" where
  "str_int i = (if i < 0 then ''-'' @ str_nat (nat (- i)) else str_nat (nat i))"

text \<open>\<open>channel or f'chatroom-{chatroom_id}'\<close>\<close>

definition session_name :: "config \<Rightarrow> string" where
  "session_name cfg =
     (if channel cfg \<noteq> [] then channel cfg else ''chatroom-'' @ str_int (chatroom_id cfg))"

section \<open>The capture coordinator (\<open>capture_once\<close>, lines 288-358)\<close>

text \<open>
  What an invocation of the external tool does, as \<open>capture_once\<close> sees it:
  \<open>create_subprocess_exec\<close> raises \<open>FileNotFoundError\<close> (\<open>NotFound\<close>) or another
  exception (\<open>SpawnError\<close>); \<open>wait_for\<close> raises \<open>asyncio.TimeoutError\<close> (\<open>TimedOut\<close>);
  \<open>communicate\<close> raises something else (\<open>CommError\<close>); or the process exits with a
  return code and its standard output.
\<close>

datatype proc_outcome = NotFound | SpawnError | TimedOut | CommError | Exited int string

datatype proc = Primary | Thumb

datatype proc_event = Spawned proc | Killed proc

text \<open>
  The capture state shared through \<open>run_live\<close>'s locals, with the stop signal, the
  screenshot files on disk and the trace of what was done to external processes.
\<close>

record capture =
  latest_screenshot :: "string option"
  latest_screenshot_b64 :: "string option"
  screenshot_paths :: "string list"
  stop_event :: bool
  files :: "string set"
  procs :: "proc_event list"

definition init_capture :: capture where
  "init_capture =
     \<lparr>latest_screenshot = None, latest_screenshot_b64 = None, screenshot_paths = [],
      stop_event = False, files = {}, procs = []\<rparr>"

text \<open>\<open>screenshot_dir / filename\<close>, with the file name of line 293.\<close>

definition output_path :: "config \<Rightarrow> string \<Rightarrow> string \<Rightarrow> string" where
  "output_path cfg dir ts =
     dir @ ''/'' @ session_name cfg @ ''-'' @ ts @ ''.'' @ screenshot_format cfg"

text \<open>
  Lines 319-324: \<open>while len(screenshot_paths) > screenshot_max\<close>, pop the left end and
  unlink the file. \<open>unlink_ok p\<close> tells whether \<open>unlink\<close> succeeds on \<open>p\<close>; when it does
  not, the exception is swallowed and the file stays. \<open>popleft\<close> on an empty deque raises
  \<open>IndexError\<close>.
\<close>

fun trim :: "(string \<Rightarrow> bool) \<Rightarrow> int \<Rightarrow> string list \<Rightarrow> string set \<Rightarrow>
    exn option \<times> string list \<times> string set" where
  "trim unlink_ok m [] fs = (if 0 > m then (Some IndexError, [], fs) else (None, [], fs))"
| "trim unlink_ok m (p # ps) fs =
     (if int (length (p # ps)) > m
      then trim unlink_ok m ps (if unlink_ok p then fs - {p} else fs)
      else (None, p # ps, fs))"

text \<open>Lines 313-324, the critical section after a capture that returned 0.\<close>

definition retain :: "config \<Rightarrow> (string \<Rightarrow> bool) \<Rightarrow> string \<Rightarrow> capture \<Rightarrow> exn option \<times> capture" where
  "retain cfg unlink_ok path c =
     (let c1 = c\<lparr>latest_screenshot := Some path,
                 latest_screenshot_b64 :=
                   (if screenshot_embed cfg then None else latest_screenshot_b64 c)\<rparr>
      in case screenshot_max cfg of
           None \<Rightarrow> (None, c1)
         | Some m \<Rightarrow>
             if m = 0 then (None, c1)
             else
               (case trim unlink_ok m (screenshot_paths c1 @ [path]) (files c1) of
                  (e, ps, fs) \<Rightarrow> (e, c1\<lparr>screenshot_paths := ps, files := fs\<rparr>)))"

text \<open>
  Lines 325-348, the thumbnail, with the handlers of lines 349-358 as they apply to it.
  On a timeout the handler runs \<open>proc.kill()\<close>, and \<open>proc\<close> is the primary process,
  which has exited; asyncio's \<open>kill\<close> raises \<open>ProcessLookupError\<close> for a process that
  has been waited for, and the exception leaves \<open>capture_once\<close>. \<open>b64encode\<close> is
  \<open>base64.b64encode(stdout).decode("ascii")\<close>.
\<close>

definition thumbnail :: "(string \<Rightarrow> string) \<Rightarrow> proc_outcome \<Rightarrow> capture \<Rightarrow> exn option \<times> capture" where
  "thumbnail b64encode thumb c =
     (case thumb of
        NotFound \<Rightarrow> (None, c\<lparr>stop_event := True\<rparr>)
      | SpawnError \<Rightarrow> (None, c)
      | TimedOut \<Rightarrow> (Some ProcessLookupError, c\<lparr>procs := procs c @ [Spawned Thumb]\<rparr>)
      | CommError \<Rightarrow> (None, c\<lparr>procs := procs c @ [Spawned Thumb]\<rparr>)
      | Exited rc stdout \<Rightarrow>
          (None,
           if rc = 0 \<and> stdout \<noteq> []
           then c\<lparr>procs := procs c @ [Spawned Thumb],
                  latest_screenshot_b64 := Some (b64encode stdout)\<rparr>
           else c\<lparr>procs := procs c @ [Spawned Thumb]\<rparr>))"

text \<open>
  \<open>capture_once\<close>. \<open>ts\<close> is \<open>timestamp_label()\<close>; \<open>primary\<close> and \<open>thumb\<close> are what the
  two invocations of the external tool do. The result is the exception that leaves the
  coroutine, if any, and the state. A primary capture that returns 0 has written its
  output file.
\<close>

definition capture_once ::
  "config \<Rightarrow> (string \<Rightarrow> bool) \<Rightarrow> (string \<Rightarrow> string) \<Rightarrow> string \<Rightarrow> proc_outcome \<Rightarrow> proc_outcome \<Rightarrow>
   capture \<Rightarrow> exn option \<times> capture" where
  "capture_once cfg unlink_ok b64encode ts primary thumb c =
     (case (stream_url cfg, screenshot_dir cfg) of
        (Some url, Some dir) \<Rightarrow>
          if url = [] then (None, c)
          else
            (case primary of
               NotFound \<Rightarrow> (None, c\<lparr>stop_event := True\<rparr>)
             | SpawnError \<Rightarrow> (None, c)
             | TimedOut \<Rightarrow> (None, c\<lparr>procs := procs c @ [Spawned Primary, Killed Primary]\<rparr>)
             | CommError \<Rightarrow> (None, c\<lparr>procs := procs c @ [Spawned Primary]\<rparr>)
             | Exited rc out \<Rightarrow>
                 if rc \<noteq> 0 then (None, c\<lparr>procs := procs c @ [Spawned Primary]\<rparr>)
                 else
                   (case retain cfg unlink_ok (output_path cfg dir ts)
                           (c\<lparr>procs := procs c @ [Spawned Primary],
                              files := insert (output_path cfg dir ts) (files c)\<rparr>) of
                      (Some e, c1) \<Rightarrow> (None, c1)
                    | (None, c1) \<Rightarrow>
                        if screenshot_embed cfg then thumbnail b64encode thumb c1
                        else (None, c1)))
      | _ \<Rightarrow> (None, c))"

text \<open>
  One round of \<open>capture_screenshots\<close> (lines 360-363), the fixed-interval loop. It awaits
  \<open>capture_once\<close> directly, so an exception that leaves \<open>capture_once\<close> leaves the task;
  \<open>asyncio.gather\<close> raises it in \<open>run_live\<close>, whose \<open>finally\<close> clause (lines 424-427)
  sets the stop signal and cancels every task.
\<close>

definition capture_screenshots_round ::
  "config \<Rightarrow> (string \<Rightarrow> bool) \<Rightarrow> (string \<Rightarrow> string) \<Rightarrow> string \<Rightarrow> proc_outcome \<Rightarrow> proc_outcome \<Rightarrow>
   capture \<Rightarrow> exn option \<times> capture" where
  "capture_screenshots_round cfg unlink_ok b64encode ts primary thumb c =
     (case capture_once cfg unlink_ok b64encode ts primary thumb c of
        (None, c') \<Rightarrow> (None, c')
      | (Some e, c') \<Rightarrow> (Some e, c'\<lparr>stop_event := True\<rparr>))"

text \<open>
  A run of captures, each with its label and the behaviour of its two invocations, oldest
  first. Exceptions that leave a capture are dropped, as they are for a task that nobody
  awaits.
\<close>

definition capture_all ::
  "config \<Rightarrow> (string \<Rightarrow> bool) \<Rightarrow> (string \<Rightarrow> string) \<Rightarrow> (string \<times> proc_outcome \<times> proc_outcome) list \<Rightarrow>
   capture \<Rightarrow> capture" where
  "capture_all cfg unlink_ok b64encode runs c =
     foldl (\<lambda>c (ts, primary, thumb). snd (capture_once cfg unlink_ok b64encode ts primary thumb c))
       c runs"

text \<open>A capture whose primary invocation returned 0.\<close>

fun succeeded :: "string \<times> proc_outcome \<times> proc_outcome \<Rightarrow> bool" where
  "succeeded (ts, Exited rc out, thumb) = (rc = 0)"
| "succeeded _ = False"

section \<open>The capture trigger of the scheduler (\<open>stats_loop\<close>, lines 236 and 277-278)\<close>

text \<open>
  \<open>screenshot_task\<close> is the local of \<open>stats_loop\<close>; tasks are numbered in the order in
  which \<open>asyncio.create_task\<close> makes them. \<open>pending\<close> holds the capture tasks that have
  been created and are not done, so \<open>task.done()\<close> is \<open>i \<notin> pending\<close>; \<open>created\<close> counts
  the tasks made so far.
\<close>

record sched =
  screenshot_task :: "nat option"
  pending :: "nat set"
  created :: nat

definition init_sched :: sched where
  "init_sched = \<lparr>screenshot_task = None, pending = {}, created = 0\<rparr>"

definition task_free :: "sched \<Rightarrow> bool" where
  "task_free s = (case screenshot_task s of None \<Rightarrow> True | Some i \<Rightarrow> i \<notin> pending s)"

definition trigger_capture :: "bool \<Rightarrow> sched \<Rightarrow> sched" where
  "trigger_capture on_snapshot s =
     (if on_snapshot \<and> task_free s
      then s\<lparr>screenshot_task := Some (created s),
             pending := insert (created s) (pending s),
             created := Suc (created s)\<rparr>
      else s)"

text \<open>
  The scheduler's view of a session: either a snapshot tick reaches line 277, or a pending
  capture task finishes (by returning or by an exception).
\<close>

inductive sched_reachable :: "bool \<Rightarrow> sched \<Rightarrow> bool" where
  sched_start: "sched_reachable on_snapshot init_sched"
| sched_tick: "sched_reachable on_snapshot s \<Longrightarrow>
     sched_reachable on_snapshot (trigger_capture on_snapshot s)"
| sched_done: "sched_reachable on_snapshot s \<Longrightarrow> i \<in> pending s \<Longrightarrow>
     sched_reachable on_snapshot (s\<lparr>pending := pending s - {i}\<rparr>)"

definition sched_inv :: "sched \<Rightarrow> bool" where
  "sched_inv s \<longleftrightarrow> (case screenshot_task s of None \<Rightarrow> pending s = {} | Some i \<Rightarrow> pending s \<subseteq> {i})"

section \<open>Starting a session (\<open>run_live\<close>, lines 109-219 and 409-418)\<close>

text \<open>The options of the \<open>run\<close> command as \<open>argparse\<close> delivers them.\<close>

record args =
  arg_channel :: "string option"
  arg_chatroom_id :: "string option"
  arg_proxy :: "string option"
  arg_log :: "string option"
  arg_duration :: "int option"
  arg_inactivity :: "int option"
  arg_screenshot_interval :: "int option"
  arg_screenshot_on_snapshot :: bool
  arg_screenshot_dir :: "string option"
  arg_screenshot_max :: "int option"
  arg_screenshot_format :: "string option"
  arg_screenshot_embed :: bool
  arg_screenshot_embed_width :: "int option"
  arg_stream_url :: "string option"
  arg_ffmpeg_path :: "string option"

text \<open>
  What the world answers while a session starts: whether \<open>websockets\<close> can be imported,
  \<open>int(...)\<close> on the chatroom id (\<open>None\<close> for a \<open>ValueError\<close>), the HTTP lookups
  \<open>resolve_chatroom_id\<close> (\<open>Inl\<close> the text of the exception) and \<open>resolve_stream_url\<close>,
  \<open>timestamp_label()\<close>, the directory \<open>log_path.with_name(log_path.stem + "-screenshots")\<close>,
  \<open>mkdir\<close> (the exception it raises, if any) and \<open>resolve_ffmpeg_path\<close>.
\<close>

record env =
  websockets_installed :: bool
  int_of_str :: "string \<Rightarrow> int option"
  resolve_chatroom_id :: "string \<Rightarrow> string option \<Rightarrow> string + int option \<times> int option"
  timestamp_label :: string
  resolve_stream_url :: "string \<Rightarrow> exn + string option"
  default_screenshot_dir :: "string \<Rightarrow> string"
  mkdir :: "string \<Rightarrow> exn option"
  resolve_ffmpeg_path :: "string option \<Rightarrow> string option"

text \<open>
  A start that fails: \<open>Exit msg\<close> prints \<open>msg\<close> and returns 1, the exit code of the
  command; \<open>Uncaught e\<close> is an exception that nothing catches.
\<close>

datatype failure = Exit string | Uncaught exn

text \<open>Truth values of an optional string and of an optional integer.\<close>

definition str_true :: "string option \<Rightarrow> bool" where
  "str_true x = (case x of None \<Rightarrow> False | Some s \<Rightarrow> s \<noteq> [])"

definition int_true :: "int option \<Rightarrow> bool" where
  "int_true x = (case x of None \<Rightarrow> False | Some n \<Rightarrow> n \<noteq> 0)"

definition or_empty :: "string option \<Rightarrow> string" where
  "or_empty x = (case x of None \<Rightarrow> [] | Some s \<Rightarrow> s)"

text \<open>\<open>str.lower\<close> on ASCII letters.\<close>

definition lower_char :: "char \<Rightarrow> char" where
  "lower_char c =
     (case map_of (zip ''ABCDEFGHIJKLMNOPQRSTUVWXYZ'' ''abcdefghijklmnopqrstuvwxyz'') c of
        None \<Rightarrow> c
      | Some l \<Rightarrow> l)"

definition lower :: "string \<Rightarrow> string" where
  "lower s = map lower_char s"

text \<open>
  Lines 123-134: the chatroom id and the first viewer count. An id that is \<open>None\<close> or 0
  is false for \<open>if not chatroom_id\<close>.
\<close>

definition find_chatroom :: "env \<Rightarrow> args \<Rightarrow> string \<Rightarrow> failure + int \<times> int option" where
  "find_chatroom env a chan =
     (case (if str_true (arg_chatroom_id a)
            then (case int_of_str env (or_empty (arg_chatroom_id a)) of
                    None \<Rightarrow> Inl (Uncaught ValueError)
                  | Some n \<Rightarrow> Inr (Some n, None))
            else (case resolve_chatroom_id env chan (arg_proxy a) of
                    Inl exc \<Rightarrow> Inl (Exit (''Failed to resolve channel: '' @ exc))
                  | Inr r \<Rightarrow> Inr r)) of
        Inl f \<Rightarrow> Inl f
      | Inr (None, vc) \<Rightarrow> Inl (Exit ''Chatroom id not found'')
      | Inr (Some cid, vc) \<Rightarrow>
          if cid = 0 then Inl (Exit ''Chatroom id not found'') else Inr (cid, vc))"

text \<open>\<open>(args.screenshot_format or "jpg").lower()\<close>\<close>

definition format_of :: "args \<Rightarrow> string" where
  "format_of a = lower (if str_true (arg_screenshot_format a) then or_empty (arg_screenshot_format a) else ''jpg'')"

text \<open>
  Lines 151-179: the checks of the screenshot options, then the stream URL, the directory
  and the tool. The result is \<open>stream_url\<close>, \<open>screenshot_dir\<close> and \<open>ffmpeg_path\<close>.
\<close>

definition screenshot_setup ::
  "env \<Rightarrow> args \<Rightarrow> string \<Rightarrow> string \<Rightarrow> failure + string option \<times> string option \<times> string option" where
  "screenshot_setup env a chan logp =
     (if arg_screenshot_on_snapshot a \<and> int_true (arg_screenshot_interval a)
      then Inl (Exit ''Use either --screenshot-interval or --screenshot-on-snapshot, not both.'')
      else if format_of a \<notin> {''jpg'', ''png''}
      then Inl (Exit ''Screenshot format must be jpg or png.'')
      else if (case arg_screenshot_max a of None \<Rightarrow> False | Some n \<Rightarrow> n \<le> 0)
      then Inl (Exit ''Screenshot max must be a positive number.'')
      else if (case arg_screenshot_embed_width a of None \<Rightarrow> False | Some n \<Rightarrow> n \<le> 0)
      then Inl (Exit ''Screenshot embed width must be a positive number.'')
      else if int_true (arg_screenshot_interval a) \<or> arg_screenshot_on_snapshot a
      then
        (if (case arg_screenshot_interval a of None \<Rightarrow> False | Some n \<Rightarrow> n \<le> 0)
         then Inl (Exit ''Screenshot interval must be a positive number of seconds.'')
         else
           (case (if str_true (arg_stream_url a) then Inr (arg_stream_url a)
                  else if chan = [] then Inr None
                  else resolve_stream_url env chan) of
              Inl e \<Rightarrow> Inl (Uncaught e)
            | Inr url \<Rightarrow>
                if \<not> str_true url
                then Inl (Exit ''Screenshot enabled but stream URL is missing. Use --stream-url.'')
                else
                  (let dir = (if str_true (arg_screenshot_dir a) then or_empty (arg_screenshot_dir a)
                              else default_screenshot_dir env logp)
                   in case mkdir env dir of
                        Some e \<Rightarrow> Inl (Uncaught e)
                      | None \<Rightarrow>
                          (case resolve_ffmpeg_path env (arg_ffmpeg_path a) of
                             None \<Rightarrow> Inl (Exit ''ffmpeg not found. Install it or pass --ffmpeg-path to the executable.'')
                           | Some ff \<Rightarrow> if ff = []
                               then Inl (Exit ''ffmpeg not found. Install it or pass --ffmpeg-path to the executable.'')
                               else Inr (url, Some dir, Some ff)))))
      else Inr (None, None, None))"

text \<open>
  Lines 109-179 of \<open>run_live\<close>: everything it does before it creates the shared state.
  It returns the options of the session, or fails.
\<close>

definition run_live_startup :: "env \<Rightarrow> args \<Rightarrow> failure + config" where
  "run_live_startup env a =
     (if \<not> websockets_installed env
      then Inl (Exit ''Missing dependency: websockets. Install with: pip install websockets'')
      else if \<not> str_true (arg_channel a) \<and> \<not> str_true (arg_chatroom_id a)
      then Inl (Exit ''Provide --channel or --chatroom-id'')
      else
        (let chan = lower (or_empty (arg_channel a)) in
         case find_chatroom env a chan of
           Inl f \<Rightarrow> Inl f
         | Inr (cid, vc) \<Rightarrow>
             (let logp = (if str_true (arg_log a) then or_empty (arg_log a)
                          else ''kick-session-''
                               @ (if chan \<noteq> [] then chan else ''chatroom-'' @ str_int cid)
                               @ ''-'' @ timestamp_label env @ ''.jsonl'')
              in case screenshot_setup env a chan logp of
                   Inl f \<Rightarrow> Inl f
                 | Inr (url, dir, ff) \<Rightarrow>
                     Inr \<lparr>channel = chan, chatroom_id = cid, viewer_count = vc, log_path = logp,
                          screenshot_interval = arg_screenshot_interval a,
                          screenshot_on_snapshot = arg_screenshot_on_snapshot a,
                          screenshot_format = format_of a,
                          screenshot_max = arg_screenshot_max a,
                          screenshot_embed = arg_screenshot_embed a,
                          screenshot_embed_width = arg_screenshot_embed_width a,
                          screenshot_dir = dir, stream_url = url, ffmpeg_path = ff,
                          duration = arg_duration a, inactivity = arg_inactivity a\<rparr>)))"

text \<open>
  The concurrent activities of lines 409-418, and what a start of \<open>run_live\<close> leads to:
  a rejection (the printed reason and the exit code), an uncaught exception, or a running
  session with the records written to its log so far (line 214) and its tasks.
\<close>

datatype activity = StatsLoop | Listen | PollViewers | CaptureScreenshots | DurationTimer

datatype launch = Rejected string int | Crashed exn | Started config "log_record list" "activity list"

definition run_live_begin :: "env \<Rightarrow> string \<Rightarrow> args \<Rightarrow> launch" where
  "run_live_begin env ts a =
     (case run_live_startup env a of
        Inl (Exit msg) \<Rightarrow> Rejected msg 1
      | Inl (Uncaught e) \<Rightarrow> Crashed e
      | Inr cfg \<Rightarrow>
          Started cfg
            [SessionStart ts (if channel cfg = [] then ''manual'' else channel cfg) (chatroom_id cfg)]
            ([StatsLoop, Listen]
             @ (if channel cfg \<noteq> [] then [PollViewers] else [])
             @ (if int_true (screenshot_interval cfg) then [CaptureScreenshots] else [])
             @ (if int_true (duration cfg) then [DurationTimer] else [])))"

text \<open>
  The configurations that \<open>run_live\<close> turns away by its checks of lines 151-166: both
  triggers, a format that is neither jpg nor png, a maximum or a thumbnail width that is
  not positive, and an interval that is negative, or zero beside the snapshot trigger.
\<close>

definition rejected_options :: "args \<Rightarrow> bool" where
  "rejected_options a \<longleftrightarrow>
     arg_screenshot_on_snapshot a \<and> int_true (arg_screenshot_interval a) \<or>
     format_of a \<notin> {''jpg'', ''png''} \<or>
     (case arg_screenshot_max a of None \<Rightarrow> False | Some n \<Rightarrow> n \<le> 0) \<or>
     (case arg_screenshot_embed_width a of None \<Rightarrow> False | Some n \<Rightarrow> n \<le> 0) \<or>
     (case arg_screenshot_interval a of
        None \<Rightarrow> False
      | Some n \<Rightarrow> n < 0 \<or> n = 0 \<and> arg_screenshot_on_snapshot a)"

text \<open>The steps before those checks succeed: the import works, and \<open>find_chatroom\<close> returns.\<close>

definition reaches_checks :: "env \<Rightarrow> args \<Rightarrow> bool" where
  "reaches_checks env a \<longleftrightarrow>
     websockets_installed env \<and>
     (str_true (arg_channel a) \<or> str_true (arg_chatroom_id a)) \<and>
     (case find_chatroom env a (lower (or_empty (arg_channel a))) of Inl f \<Rightarrow> False | Inr r \<Rightarrow> True)"

section \<open>Properties of the aggregator\<close>

lemma evict_idem: "evict now (evict now es) = evict now es"
  by (induction es) auto

lemma length_evict: "length (evict now es) \<le> length es"
  by (induction es) (auto simp: le_SucI)

text \<open>
  C7. Querying twice with the same \<open>now\<close> and no \<open>record\<close> in between gives the same
  statistics both times, and the second query leaves the state as the first left it.
\<close>

theorem query_idempotent:
  "query now (snd (query now s)) = (fst (query now s), snd (query now s))"
  by (simp add: query_def Let_def evict_idem)

theorem query_idempotent_witness:
  "fst (query 70 (snd (query 70 (record_all [(5, ''a''), (30, ''b'')] (init_session None 0))))) =
     fst (query 70 (record_all [(5, ''a''), (30, ''b'')] (init_session None 0))) \<and>
   events (snd (query 70 (record_all [(5, ''a''), (30, ''b'')] (init_session None 0)))) =
     [(30, ''b'')]"
proof -
  have "events (snd (query 70 (record_all [(5, ''a''), (30, ''b'')] (init_session None 0)))) =
     [(30, ''b'')]"
    by (simp add: query_def record_all_def record_message_def init_session_def)
  then show ?thesis
    using query_idempotent [of 70 "record_all [(5, ''a''), (30, ''b'')] (init_session None 0)"]
    by simp
qed

subsection \<open>Clamped ages\<close>








subsection \<open>Bounds between the counters\<close>

lemma reachable_totals_bound: "reachable s \<Longrightarrow> totals_bound s"
proof (induction rule: reachable.induct)
  case (start viewer_count start_time)
  show ?case by (simp add: totals_bound_def init_session_def)
next
  case (recorded s now username)
  then have f: "finite (unique_users s)" and c: "int (card (unique_users s)) \<le> total_messages s"
    and l: "int (length (events s)) \<le> total_messages s"
    by (simp_all add: totals_bound_def)
  have "card (insert username (unique_users s)) \<le> Suc (card (unique_users s))"
    using f by (simp add: card_insert_if)
  with f c l show ?case
    by (simp add: totals_bound_def record_message_def)
next
  case (queried s now)
  then show ?case
    using length_evict [of now "events s"]
    by (simp add: totals_bound_def query_def Let_def)
next
  case (polled s v)
  then show ?case by (simp add: totals_bound_def)
qed

lemma card_names_le: "card (set (map snd es)) \<le> length es"
  using card_length [of "map snd es"] by simp

text \<open>
  C6. In every state that a session can reach and for every \<open>now\<close>, the query (which
  evicts first) returns a 1-unit count that is at most the 60-unit count, which is at most
  the lifetime total; in each window the number of distinct actors is at most the number
  of events; and the lifetime number of distinct actors is at most the lifetime total.
\<close>

theorem window_counts_ordered:
  assumes "reachable s"
  shows "per_sec (fst (query now s)) \<le> per_min (fst (query now s)) \<and>
         per_min (fst (query now s)) \<le> msg_total (fst (query now s)) \<and>
         uniq_sec (fst (query now s)) \<le> per_sec (fst (query now s)) \<and>
         uniq_min (fst (query now s)) \<le> per_min (fst (query now s)) \<and>
         uniq_total (fst (query now s)) \<le> msg_total (fst (query now s))"
proof -
  from assms have b: "totals_bound s" by (rule reachable_totals_bound)
  let ?es = "evict now (events s)"
  let ?recent = "filter (\<lambda>(t, u). t \<ge> now - 1) ?es"
  have 1: "length ?recent \<le> length ?es" by (rule length_filter_le)
  have 2: "int (length ?es) \<le> total_messages s"
    using b length_evict [of now "events s"] by (simp add: totals_bound_def)
  have 3: "card (set (map snd ?recent)) \<le> length ?recent" by (rule card_names_le)
  have 4: "card (set (map snd ?es)) \<le> length ?es" by (rule card_names_le)
  have 5: "int (card (unique_users s)) \<le> total_messages s"
    using b by (simp add: totals_bound_def)
  from 1 2 3 4 5 show ?thesis
    by (simp add: query_def Let_def del: set_map)
qed

theorem window_counts_ordered_witness:
  "reachable (record_message 5 ''bob'' (init_session None 0)) \<and>
   per_sec (fst (query 70 (record_message 5 ''bob'' (init_session None 0)))) \<le>
     per_min (fst (query 70 (record_message 5 ''bob'' (init_session None 0)))) \<and>
   per_min (fst (query 70 (record_message 5 ''bob'' (init_session None 0)))) \<le>
     msg_total (fst (query 70 (record_message 5 ''bob'' (init_session None 0)))) \<and>
   per_min (fst (query 70 (record_message 5 ''bob'' (init_session None 0)))) = 0 \<and>
   msg_total (fst (query 70 (record_message 5 ''bob'' (init_session None 0)))) = 1 \<and>
   uniq_total (fst (query 70 (record_message 5 ''bob'' (init_session None 0)))) = 1"
proof -
  let ?s = "record_message 5 ''bob'' (init_session None 0)"
  have r: "reachable ?s"
    by (rule reachable.recorded) (rule reachable.start)
  have v: "per_min (fst (query 70 ?s)) = 0 \<and> msg_total (fst (query 70 ?s)) = 1 \<and>
           uniq_total (fst (query 70 ?s)) = 1"
    by (simp add: query_def record_message_def init_session_def)
  from r v window_counts_ordered [OF r, of 70] show ?thesis by blast
qed

subsection \<open>Agreement of the lifetime structures\<close>






subsection \<open>The ranking of actors\<close>















end
